theory Spec2Isabelle
  imports Main "HOL-Library.Word" "HOL-Library.AList"
begin

section \<open>Values, documents and the collection\<close>

text \<open>
  The handlers of \<^verbatim>\<open>src/app/main.py\<close> work on Python dictionaries that the document
  store hands back. A value is one of the kinds the handlers read or write: an ObjectId
  (its twelve bytes), a string, an integer, a list, or null. Integers are Python's,
  unbounded; the store itself holds signed 64-bit integers only, and the driver refuses
  to send anything larger (\<open>encodable\<close> below). A document is a dictionary in
  insertion order, the collection is the sequence of its documents in natural order.
\<close>

type_synonym byte = "8 word"

datatype bson =
    BObjectId "byte list"
  | BString string
  | BInt int
  | BArray "bson list"
  | BNull

type_synonym document = "(string \<times> bson) list"

type_synonym collection = "document list"

text \<open>
  What a request can raise. \<open>HTTPException\<close> carries the status code and the detail
  message; the others are raised by the libraries the handlers run on (the ObjectId
  constructor, Python's \<open>+\<close>, the store's unique index on \<open>_id\<close>, the driver's
  encoder, the validation of a route's \<open>response_model\<close>) and are not caught anywhere
  in the source.
\<close>

datatype exn =
    HTTPException nat string
  | InvalidId string
  | TypeError
  | DuplicateKeyError
  | OverflowError
  | ResponseValidationError

text \<open>
  What the driver can encode: an integer must fit in eight bytes, also inside a list.
\<close>

definition int64 :: "int \<Rightarrow> bool" where
  "int64 n = (- (2 ^ 63) \<le> n \<and> n < 2 ^ 63)"

fun encodable :: "bson \<Rightarrow> bool" where
  "encodable (BInt n) = int64 n"
| "encodable (BArray xs) = list_all encodable xs"
| "encodable _ = True"

definition document_encodable :: "document \<Rightarrow> bool" where
  "document_encodable d = list_all (\<lambda>(k, v). encodable v) d"

section \<open>The data shapes of \<^verbatim>\<open>src/app/models.py\<close>\<close>

record ShareholderModel =
  id_opt :: "string option"
  name :: string
  shares :: int
  transactions :: "int list"

record UpdateShareholderModel =
  upd_name :: "string option"
  upd_shares :: "int option"
  upd_transactions :: "int list option"


text \<open>
  \<open>shareholder.model_dump(by_alias=True)\<close> of the update shape: every declared field,
  an unset one as \<open>None\<close>.
\<close>

definition model_dump_update :: "UpdateShareholderModel \<Rightarrow> document" where
  "model_dump_update u =
     [(''name'', (case upd_name u of None \<Rightarrow> BNull | Some n \<Rightarrow> BString n)),
      (''shares'', (case upd_shares u of None \<Rightarrow> BNull | Some s \<Rightarrow> BInt s)),
      (''transactions'',
         (case upd_transactions u of None \<Rightarrow> BNull | Some ts \<Rightarrow> BArray (map BInt ts)))]"

section \<open>ObjectId: parsing and printing\<close>

text \<open>
  \<open>ObjectId(id)\<close> on a string accepts exactly the strings of length 24 that
  \<open>bytes.fromhex\<close> accepts, and raises \<open>InvalidId\<close> on every other one;
  \<open>str(oid)\<close> prints the bytes as lower-case hexadecimal digits.
\<close>

definition hexval :: "char \<Rightarrow> nat option" where
  "hexval c =
     (let n = (of_char c :: nat)
      in if 48 \<le> n \<and> n \<le> 57 then Some (n - 48)
         else if 97 \<le> n \<and> n \<le> 102 then Some (n - 87)
         else if 65 \<le> n \<and> n \<le> 70 then Some (n - 55)
         else None)"

definition isspace :: "char \<Rightarrow> bool" where
  "isspace c = ((of_char c :: nat) \<in> {9, 10, 11, 12, 13, 32})"

fun fromhex :: "string \<Rightarrow> byte list option" where
  "fromhex [] = Some []"
| "fromhex (c # cs) =
     (if isspace c then fromhex cs
      else (case cs of
              [] \<Rightarrow> None
            | d # ds \<Rightarrow>
                (case (hexval c, hexval d) of
                   (Some hi, Some lo) \<Rightarrow>
                     (case fromhex ds of
                        None \<Rightarrow> None
                      | Some bs \<Rightarrow> Some (of_nat (hi * 16 + lo) # bs))
                 | _ \<Rightarrow> None)))"

definition ObjectId :: "string \<Rightarrow> exn + bson" where
  "ObjectId s =
     (if length s = 24
      then (case fromhex s of None \<Rightarrow> Inl (InvalidId s) | Some bs \<Rightarrow> Inr (BObjectId bs))
      else Inl (InvalidId s))"

definition hexdigit :: "nat \<Rightarrow> char" where
  "hexdigit n = ''0123456789abcdef'' ! n"

definition hexlify :: "byte list \<Rightarrow> string" where
  "hexlify bs = concat (map (\<lambda>b. [hexdigit (unat b div 16), hexdigit (unat b mod 16)]) bs)"

section \<open>The store client\<close>

text \<open>
  The five primitives the handlers call on the collection handle, each on the filter
  \<open>{"_id": v}\<close>: a document matches when its \<open>_id\<close> field holds a value equal to
  \<open>v\<close> (a string never equals an ObjectId), and the first match in natural order is
  the one found, deleted or updated. A primitive that sends a document raises
  \<open>OverflowError\<close> before anything reaches the store when the document holds an
  integer outside eight bytes. The filters the handlers build hold an ObjectId or a
  string, which always encode.
\<close>

definition matches :: "bson \<Rightarrow> document \<Rightarrow> bool" where
  "matches v d = (map_of d ''_id'' = Some v)"

definition find_one :: "collection \<Rightarrow> bson \<Rightarrow> document option" where
  "find_one coll v = find (matches v) coll"

definition find_all :: "collection \<Rightarrow> document list" where
  "find_all coll = coll"

text \<open>
  \<open>insert_one\<close>: a document without \<open>_id\<close> gets the ObjectId the driver generates
  (\<open>new_id\<close>, a parameter here), written first; the driver encodes the document, and
  the unique index on \<open>_id\<close> refuses a value that is already there. The result is
  \<open>inserted_id\<close> and the new collection.
\<close>

definition insert_one :: "byte list \<Rightarrow> collection \<Rightarrow> document \<Rightarrow> exn + (bson \<times> collection)" where
  "insert_one new_id coll d =
     (let d' = (case map_of d ''_id'' of
                  None \<Rightarrow> (''_id'', BObjectId new_id) # d
                | Some _ \<Rightarrow> d);
          inserted_id = (case map_of d ''_id'' of None \<Rightarrow> BObjectId new_id | Some v \<Rightarrow> v)
      in if \<not> document_encodable d' then Inl OverflowError
         else if find_one coll inserted_id \<noteq> None then Inl DuplicateKeyError
         else Inr (inserted_id, coll @ [d']))"

text \<open>\<open>delete_one\<close>: \<open>deleted_count\<close> and the new collection.\<close>

fun delete_one :: "collection \<Rightarrow> bson \<Rightarrow> nat \<times> collection" where
  "delete_one [] v = (0, [])"
| "delete_one (d # ds) v =
     (if matches v d then (1, ds)
      else (case delete_one ds v of (n, ds') \<Rightarrow> (n, d # ds')))"

text \<open>\<open>$set\<close>: each field of the update replaces the field of that name or is added.\<close>

definition set_fields :: "document \<Rightarrow> document \<Rightarrow> document" where
  "set_fields upd d = fold (\<lambda>(k, v). AList.update k v) upd d"

text \<open>
  \<open>find_one_and_update\<close> with \<open>return_document=ReturnDocument.AFTER\<close>: the driver
  encodes the filter and the \<open>$set\<close> document; the store then updates the first match
  and hands back its post-image, or \<open>None\<close> when nothing matches.
\<close>

fun update_first_match :: "collection \<Rightarrow> bson \<Rightarrow> document \<Rightarrow> document option \<times> collection" where
  "update_first_match [] v upd = (None, [])"
| "update_first_match (d # ds) v upd =
     (if matches v d then (Some (set_fields upd d), set_fields upd d # ds)
      else (case update_first_match ds v upd of (r, ds') \<Rightarrow> (r, d # ds')))"

definition find_one_and_update ::
  "collection \<Rightarrow> bson \<Rightarrow> document \<Rightarrow> exn + (document option \<times> collection)" where
  "find_one_and_update coll v upd =
     (if encodable v \<and> document_encodable upd then Inr (update_first_match coll v upd)
      else Inl OverflowError)"

section \<open>Python's dictionary lookup and addition\<close>

definition py_get :: "document \<Rightarrow> string \<Rightarrow> bson \<Rightarrow> bson" where
  "py_get d k dflt = (case map_of d k of None \<Rightarrow> dflt | Some v \<Rightarrow> v)"

fun py_add :: "bson \<Rightarrow> bson \<Rightarrow> exn + bson" where
  "py_add (BArray xs) (BArray ys) = Inr (BArray (xs @ ys))"
| "py_add (BInt a) (BInt b) = Inr (BInt (a + b))"
| "py_add (BString a) (BString b) = Inr (BString (a @ b))"
| "py_add _ _ = Inl TypeError"

section \<open>The request handlers of \<^verbatim>\<open>src/app/main.py\<close>\<close>

definition not_found :: "string \<Rightarrow> exn" where
  "not_found i = HTTPException 404 (''Shareholder '' @ i @ '' not found'')"

text \<open>
  \<open>get_shareholder\<close>: \<open>if shareholder:\<close> is Python's truth test, false for
  \<open>None\<close> and for the empty dictionary.
\<close>

definition get_shareholder :: "collection \<Rightarrow> string \<Rightarrow> exn + document" where
  "get_shareholder coll i =
     (case ObjectId i of
        Inl e \<Rightarrow> Inl e
      | Inr oid \<Rightarrow>
          (case find_one coll oid of
             None \<Rightarrow> Inl (not_found i)
           | Some shareholder \<Rightarrow>
               if shareholder \<noteq> [] then Inr shareholder else Inl (not_found i)))"

definition get_all_shareholders :: "collection \<Rightarrow> exn + document list" where
  "get_all_shareholders coll = Inr (find_all coll)"


text \<open>\<open>Response(status_code=...)\<close>: a response with that code and no content.\<close>

record Response =
  resp_status_code :: nat
  resp_body :: string

definition delete_shareholder :: "collection \<Rightarrow> string \<Rightarrow> (exn + Response) \<times> collection" where
  "delete_shareholder coll i =
     (case ObjectId i of
        Inl e \<Rightarrow> (Inl e, coll)
      | Inr oid \<Rightarrow>
          (case delete_one coll oid of
             (deleted_count, coll') \<Rightarrow>
               if deleted_count = 1
               then (Inr \<lparr>resp_status_code = 204, resp_body = []\<rparr>, coll')
               else (Inl (not_found i), coll')))"

text \<open>
  \<open>update_shareholder\<close>: the dictionary comprehension keeps the fields that are not
  \<open>None\<close>. With at least one field left the update goes through
  \<open>find_one_and_update\<close> on \<open>ObjectId(id)\<close>; otherwise the handler looks the
  document up with the filter \<open>{"_id": id}\<close>, where \<open>id\<close> is the path string itself.
\<close>

definition non_null_fields :: "UpdateShareholderModel \<Rightarrow> document" where
  "non_null_fields u = filter (\<lambda>(k, v). v \<noteq> BNull) (model_dump_update u)"

definition update_shareholder ::
  "collection \<Rightarrow> string \<Rightarrow> UpdateShareholderModel \<Rightarrow> (exn + document) \<times> collection" where
  "update_shareholder coll i u =
     (let shareholder = non_null_fields u
      in if length shareholder \<ge> 1
         then (case ObjectId i of
                 Inl e \<Rightarrow> (Inl e, coll)
               | Inr oid \<Rightarrow>
                   (case find_one_and_update coll oid shareholder of
                      Inl e \<Rightarrow> (Inl e, coll)
                    | Inr (Some update_result, coll') \<Rightarrow> (Inr update_result, coll')
                    | Inr (None, coll') \<Rightarrow> (Inl (not_found i), coll')))
         else (case find_one coll (BString i) of
                 Some existing_shareholder \<Rightarrow> (Inr existing_shareholder, coll)
               | None \<Rightarrow> (Inl (not_found i), coll)))"

text \<open>
  \<open>append_transaction\<close> reads the document, computes the new list and the new total
  from what it read, and writes both with one \<open>find_one_and_update\<close>. The handler
  awaits the store twice; \<open>between\<close> is what other requests do to the collection
  between the read and the write. A single uncontended call is the handler with nothing
  in between.
\<close>

definition append_transaction_between ::
  "(collection \<Rightarrow> collection) \<Rightarrow> collection \<Rightarrow> string \<Rightarrow> int \<Rightarrow> (exn + document) \<times> collection" where
  "append_transaction_between between coll i transaction =
     (case ObjectId i of
        Inl e \<Rightarrow> (Inl e, coll)
      | Inr oid \<Rightarrow>
          (case find_one coll oid of
             None \<Rightarrow> (Inl (not_found i), coll)
           | Some shareholder \<Rightarrow>
               (case py_add (py_get shareholder ''transactions'' (BArray []))
                            (BArray [BInt transaction]) of
                  Inl e \<Rightarrow> (Inl e, coll)
                | Inr updated_transactions \<Rightarrow>
                    (case py_add (py_get shareholder ''shares'' (BInt 0)) (BInt transaction) of
                       Inl e \<Rightarrow> (Inl e, coll)
                     | Inr updated_shares \<Rightarrow>
                         (case find_one_and_update (between coll) oid
                                 [(''transactions'', updated_transactions),
                                  (''shares'', updated_shares)] of
                            Inl e \<Rightarrow> (Inl e, between coll)
                          | Inr (Some update_result, coll') \<Rightarrow> (Inr update_result, coll')
                          | Inr (None, coll') \<Rightarrow> (Inl (not_found i), coll'))))))"

definition append_transaction ::
  "collection \<Rightarrow> string \<Rightarrow> int \<Rightarrow> (exn + document) \<times> collection" where
  "append_transaction coll i transaction =
     append_transaction_between (\<lambda>c. c) coll i transaction"

section \<open>Documents as shareholder records\<close>

text \<open>
  \<open>as_ShareholderModel\<close> reads a document whose fields already have the declared
  types as a shareholder record: \<open>_id\<close> goes through \<open>str\<close> (\<open>PyObjectId\<close>), an
  absent \<open>_id\<close> is the default \<open>None\<close>. It is \<open>None\<close> on every other document.
  A stored shareholder record is a document it reads.
\<close>

fun int_of :: "bson \<Rightarrow> int option" where
  "int_of (BInt n) = Some n"
| "int_of _ = None"

fun ints_of :: "bson list \<Rightarrow> int list option" where
  "ints_of [] = Some []"
| "ints_of (x # xs) =
     (case int_of x of
        None \<Rightarrow> None
      | Some n \<Rightarrow> (case ints_of xs of None \<Rightarrow> None | Some ns \<Rightarrow> Some (n # ns)))"

fun id_str :: "bson option \<Rightarrow> string option option" where
  "id_str None = Some None"
| "id_str (Some (BObjectId bs)) = Some (Some (hexlify bs))"
| "id_str (Some (BString s)) = Some (Some s)"
| "id_str (Some _) = None"

definition as_ShareholderModel :: "document \<Rightarrow> ShareholderModel option" where
  "as_ShareholderModel d =
     (case (id_str (map_of d ''_id''), map_of d ''name'', map_of d ''shares'',
            map_of d ''transactions'') of
        (Some i, Some (BString n), Some (BInt s), Some (BArray ts)) \<Rightarrow>
          (case ints_of ts of
             None \<Rightarrow> None
           | Some ns \<Rightarrow> Some \<lparr>id_opt = i, name = n, shares = s, transactions = ns\<rparr>)
      | _ \<Rightarrow> None)"

text \<open>
  The baseline of a record: what its total holds beyond the sum of its transactions.
\<close>

definition baseline :: "ShareholderModel \<Rightarrow> int" where
  "baseline m = shares m - sum_list (transactions m)"

section \<open>The routes: response models and status codes\<close>

text \<open>
  Every route but delete declares a \<open>response_model\<close>: what the handler returns is
  validated against it (in the validator's lax mode) before it is sent, and a value that
  does not validate is answered with status 500. The validator and Python's \<open>str\<close>
  are libraries; two of their conversions go beyond what this development defines and
  are parameters: the lax reading of a string as an integer, and \<open>str\<close> of a value
  that is neither an ObjectId nor a string. No handler and no record written through the
  routes ever reaches them.
\<close>

record lax =
  str_as_int :: "string \<Rightarrow> int option"
  str_other :: "bson \<Rightarrow> string"

fun validate_str :: "bson \<Rightarrow> string option" where
  "validate_str (BString s) = Some s"
| "validate_str _ = None"

fun validate_int :: "lax \<Rightarrow> bson \<Rightarrow> int option" where
  "validate_int l (BInt n) = Some n"
| "validate_int l (BString s) = str_as_int l s"
| "validate_int l _ = None"

fun validate_list_int :: "lax \<Rightarrow> bson \<Rightarrow> int list option" where
  "validate_list_int l (BArray xs) = those (map (validate_int l) xs)"
| "validate_list_int l _ = None"

text \<open>
  \<open>id: Optional[PyObjectId] = Field(alias="_id", default=None)\<close> with
  \<open>populate_by_name=True\<close>: the value under \<open>_id\<close>, else the one under \<open>id\<close>,
  else the default; \<open>None\<close> stays \<open>None\<close>, anything else goes through \<open>str\<close>.
\<close>

fun py_str :: "lax \<Rightarrow> bson \<Rightarrow> string" where
  "py_str l (BObjectId bs) = hexlify bs"
| "py_str l (BString s) = s"
| "py_str l v = str_other l v"

definition validate_id :: "lax \<Rightarrow> document \<Rightarrow> string option" where
  "validate_id l d =
     (case (case map_of d ''_id'' of Some v \<Rightarrow> Some v | None \<Rightarrow> map_of d ''id'') of
        None \<Rightarrow> None
      | Some BNull \<Rightarrow> None
      | Some v \<Rightarrow> Some (py_str l v))"

definition validate_ShareholderModel :: "lax \<Rightarrow> document \<Rightarrow> ShareholderModel option" where
  "validate_ShareholderModel l d =
     (case (map_of d ''name'', map_of d ''shares'', map_of d ''transactions'') of
        (Some n, Some s, Some ts) \<Rightarrow>
          (case (validate_str n, validate_int l s, validate_list_int l ts) of
             (Some n', Some s', Some ts') \<Rightarrow>
               Some \<lparr>id_opt = validate_id l d, name = n', shares = s', transactions = ts'\<rparr>
           | _ \<Rightarrow> None)
      | _ \<Rightarrow> None)"

text \<open>What a route sends: a status code and a body.\<close>

datatype content =
    JSON_shareholder ShareholderModel
  | JSON_shareholders "ShareholderModel list"
  | JSON_detail string
  | Raw string
  | Internal_Server_Error exn

type_synonym http_response = "nat \<times> content"

text \<open>
  A raised \<open>HTTPException\<close> is answered with its status code and detail; any other
  exception with status 500.
\<close>

fun raised :: "exn \<Rightarrow> http_response" where
  "raised (HTTPException c detail) = (c, JSON_detail detail)"
| "raised e = (500, Internal_Server_Error e)"

text \<open>
  \<open>response_model=ShareholderModel\<close> and \<open>response_model=list[ShareholderModel]\<close>
  on a returned value, with the status code the decorator gives the route. \<open>None\<close>
  is not a shareholder.
\<close>

definition response_ShareholderModel :: "lax \<Rightarrow> nat \<Rightarrow> document option \<Rightarrow> http_response" where
  "response_ShareholderModel l code r =
     (case r of
        None \<Rightarrow> (500, Internal_Server_Error ResponseValidationError)
      | Some d \<Rightarrow>
          (case validate_ShareholderModel l d of
             None \<Rightarrow> (500, Internal_Server_Error ResponseValidationError)
           | Some m \<Rightarrow> (code, JSON_shareholder m)))"

definition response_list_ShareholderModel :: "lax \<Rightarrow> nat \<Rightarrow> document list \<Rightarrow> http_response" where
  "response_list_ShareholderModel l code ds =
     (case those (map (validate_ShareholderModel l) ds) of
        None \<Rightarrow> (500, Internal_Server_Error ResponseValidationError)
      | Some ms \<Rightarrow> (code, JSON_shareholders ms))"

text \<open>
  The routes, each with the status code of its decorator: 200 by default,
  \<open>status.HTTP_201_CREATED\<close> for create; delete sends the \<open>Response\<close> object the
  handler returns.
\<close>

definition route_get_shareholder :: "lax \<Rightarrow> collection \<Rightarrow> string \<Rightarrow> http_response" where
  "route_get_shareholder l coll i =
     (case get_shareholder coll i of
        Inl e \<Rightarrow> raised e
      | Inr d \<Rightarrow> response_ShareholderModel l 200 (Some d))"

definition route_get_all_shareholders :: "lax \<Rightarrow> collection \<Rightarrow> http_response" where
  "route_get_all_shareholders l coll =
     (case get_all_shareholders coll of
        Inl e \<Rightarrow> raised e
      | Inr ds \<Rightarrow> response_list_ShareholderModel l 200 ds)"


definition route_delete_shareholder :: "collection \<Rightarrow> string \<Rightarrow> http_response \<times> collection" where
  "route_delete_shareholder coll i =
     (case delete_shareholder coll i of
        (Inl e, coll') \<Rightarrow> (raised e, coll')
      | (Inr r, coll') \<Rightarrow> ((resp_status_code r, Raw (resp_body r)), coll'))"

definition route_update_shareholder ::
  "lax \<Rightarrow> collection \<Rightarrow> string \<Rightarrow> UpdateShareholderModel \<Rightarrow> http_response \<times> collection" where
  "route_update_shareholder l coll i u =
     (case update_shareholder coll i u of
        (Inl e, coll') \<Rightarrow> (raised e, coll')
      | (Inr d, coll') \<Rightarrow> (response_ShareholderModel l 200 (Some d), coll'))"

definition route_append_transaction_between ::
  "lax \<Rightarrow> (collection \<Rightarrow> collection) \<Rightarrow> collection \<Rightarrow> string \<Rightarrow> int
   \<Rightarrow> http_response \<times> collection" where
  "route_append_transaction_between l between coll i transaction =
     (case append_transaction_between between coll i transaction of
        (Inl e, coll') \<Rightarrow> (raised e, coll')
      | (Inr d, coll') \<Rightarrow> (response_ShareholderModel l 200 (Some d), coll'))"

definition route_append_transaction ::
  "lax \<Rightarrow> collection \<Rightarrow> string \<Rightarrow> int \<Rightarrow> http_response \<times> collection" where
  "route_append_transaction l coll i transaction =
     route_append_transaction_between l (\<lambda>c. c) coll i transaction"

section \<open>Invariants of the store\<close>

text \<open>
  The store keeps \<open>_id\<close> unique and present in every document, and every integer it
  holds fits in eight bytes; every primitive above preserves both.
\<close>

definition unique_ids :: "collection \<Rightarrow> bool" where
  "unique_ids coll =
     (list_all (\<lambda>d. map_of d ''_id'' \<noteq> None) coll
      \<and> distinct (map (\<lambda>d. map_of d ''_id'') coll))"

definition stored_int64 :: "collection \<Rightarrow> bool" where
  "stored_int64 coll = list_all document_encodable coll"

section \<open>Sample data\<close>

text \<open>
  The record of the scenario in the specification (Alice, 100 shares, one transaction
  of 100) under a fixed ObjectId; a document that has neither \<open>shares\<close> nor
  \<open>transactions\<close>; a record whose shares are the largest integer the store holds;
  a document that has nothing but its id; and an instance of the two library
  conversions, which no sample consults.
\<close>

definition alice_id :: "byte list" where
  "alice_id = [0, 0, 0, 0, 0, 0, 0, 0, 0, 0, 0, 1]"

definition alice_path :: string where
  "alice_path = ''000000000000000000000001''"

definition alice :: document where
  "alice =
     [(''_id'', BObjectId alice_id), (''name'', BString ''Alice''),
      (''shares'', BInt 100), (''transactions'', BArray [BInt 100])]"

definition bob_id :: "byte list" where
  "bob_id = [0, 0, 0, 0, 0, 0, 0, 0, 0, 0, 0, 2]"

definition bob_path :: string where
  "bob_path = ''000000000000000000000002''"

definition bob :: document where
  "bob = [(''_id'', BObjectId bob_id), (''name'', BString ''Bob'')]"

definition carol_id :: "byte list" where
  "carol_id = [0, 0, 0, 0, 0, 0, 0, 0, 0, 0, 0, 3]"

definition carol_path :: string where
  "carol_path = ''000000000000000000000003''"

definition carol :: document where
  "carol =
     [(''_id'', BObjectId carol_id), (''name'', BString ''Carol''),
      (''shares'', BInt 9223372036854775807), (''transactions'', BArray [])]"




definition refuse_all :: lax where
  "refuse_all = \<lparr>str_as_int = (\<lambda>s. None), str_other = (\<lambda>v. [])\<rparr>"

section \<open>ObjectId round trip\<close>







lemma ObjectId_encodable: "ObjectId i = Inr oid \<Longrightarrow> encodable oid"
  by (auto simp: ObjectId_def split: if_splits option.splits)

section \<open>Facts about the store client\<close>

lemma find_one_matches: "find_one coll v = Some d \<Longrightarrow> matches v d \<and> d \<in> set coll"
  unfolding find_one_def by (induction coll) (auto split: if_splits)

lemma find_one_None_iff: "find_one coll v = None \<longleftrightarrow> (\<forall>d \<in> set coll. \<not> matches v d)"
  unfolding find_one_def by (auto simp: find_None_iff)

lemma find_one_Nil: "find_one [] v = None"
  by (simp add: find_one_def)

lemma find_one_Cons:
  "find_one (d # ds) v = (if matches v d then Some d else find_one ds v)"
  by (simp add: find_one_def)


lemma found_nonempty: "find_one coll v = Some d \<Longrightarrow> d \<noteq> []"
  by (auto dest!: find_one_matches simp: matches_def)

lemma map_of_set_fields: "map_of (set_fields upd d) = map_of d ++ map_of (rev upd)"
proof (induction upd arbitrary: d)
  case Nil
  show ?case by (simp add: set_fields_def)
next
  case (Cons p upd)
  obtain k v where p: "p = (k, v)" by (cases p)
  have "map_of (set_fields (p # upd) d) = map_of (set_fields upd (AList.update k v d))"
    by (simp add: set_fields_def p)
  also have "\<dots> = map_of (AList.update k v d) ++ map_of (rev upd)"
    by (rule Cons.IH)
  also have "\<dots> = map_of d ++ map_of (rev (p # upd))"
    by (simp add: p update_conv' map_add_upd_left fun_eq_iff map_add_def split: option.splits)
  finally show ?case .
qed

lemma set_fields_untouched:
  "k \<notin> fst ` set upd \<Longrightarrow> map_of (set_fields upd d) k = map_of d k"
proof -
  assume "k \<notin> fst ` set upd"
  then have "map_of (rev upd) k = None"
    by (simp add: map_of_eq_None_iff)
  then show ?thesis by (simp add: map_of_set_fields map_add_def)
qed

lemma set_fields_written:
  "distinct (map fst upd) \<Longrightarrow> (k, v) \<in> set upd \<Longrightarrow> map_of (set_fields upd d) k = Some v"
proof -
  assume dist: "distinct (map fst upd)" and mem: "(k, v) \<in> set upd"
  have "distinct (map fst (rev upd))" using dist by (simp add: rev_map [symmetric])
  moreover have "(k, v) \<in> set (rev upd)" using mem by simp
  ultimately have "map_of (rev upd) k = Some v" by (rule map_of_is_SomeI)
  then show ?thesis by (simp add: map_of_set_fields map_add_def)
qed

lemma matches_set_fields:
  "''_id'' \<notin> fst ` set upd \<Longrightarrow> matches w (set_fields upd d) = matches w d"
  by (simp add: matches_def set_fields_untouched)

lemma update_first_match_absent:
  "find_one coll v = None \<Longrightarrow> update_first_match coll v upd = (None, coll)"
  by (induction coll) (auto simp: find_one_Cons split: if_splits)

lemma update_first_match_present:
  "find_one coll v = Some d \<Longrightarrow> fst (update_first_match coll v upd) = Some (set_fields upd d)"
  by (induction coll) (auto simp: find_one_Cons find_one_Nil case_prod_unfold split: if_splits)

lemma find_one_after_update:
  "find_one coll v = Some d \<Longrightarrow> ''_id'' \<notin> fst ` set upd \<Longrightarrow>
   find_one (snd (update_first_match coll v upd)) v = Some (set_fields upd d)"
  by (induction coll)
     (auto simp: find_one_Cons find_one_Nil matches_set_fields case_prod_unfold split: if_splits)

lemma find_one_other_after_update:
  "w \<noteq> v \<Longrightarrow> ''_id'' \<notin> fst ` set upd \<Longrightarrow>
   find_one (snd (update_first_match coll v upd)) w = find_one coll w"
proof (induction coll)
  case Nil
  show ?case by simp
next
  case (Cons d ds)
  show ?case
  proof (cases "matches v d")
    case True
    with Cons.prems have "\<not> matches w d" by (auto simp: matches_def)
    with True Cons.prems show ?thesis
      by (simp add: find_one_Cons matches_set_fields)
  next
    case False
    with Cons show ?thesis
      by (simp add: find_one_Cons case_prod_unfold)
  qed
qed

lemma delete_one_absent: "find_one coll v = None \<Longrightarrow> delete_one coll v = (0, coll)"
  by (induction coll) (auto simp: find_one_Cons split: if_splits)

lemma delete_one_present: "find_one coll v = Some d \<Longrightarrow> fst (delete_one coll v) = 1"
  by (induction coll) (auto simp: find_one_Cons find_one_Nil case_prod_unfold split: if_splits)

lemma unique_ids_Cons:
  "unique_ids (d # ds) \<longleftrightarrow>
     map_of d ''_id'' \<noteq> None \<and> (\<forall>e \<in> set ds. map_of e ''_id'' \<noteq> map_of d ''_id'') \<and> unique_ids ds"
  by (force simp: unique_ids_def)

lemma find_one_after_delete:
  "unique_ids coll \<Longrightarrow> find_one (snd (delete_one coll v)) v = None"
proof (induction coll)
  case Nil
  show ?case by (simp add: find_one_def)
next
  case (Cons d ds)
  show ?case
  proof (cases "matches v d")
    case True
    with Cons.prems have "\<forall>e \<in> set ds. \<not> matches v e"
      by (auto simp: unique_ids_Cons matches_def)
    with True show ?thesis by (simp add: find_one_None_iff)
  next
    case False
    with Cons show ?thesis
      by (simp add: find_one_Cons unique_ids_Cons case_prod_unfold)
  qed
qed

lemma find_one_other_after_delete:
  "w \<noteq> v \<Longrightarrow> find_one (snd (delete_one coll v)) w = find_one coll w"
  by (induction coll) (auto simp: find_one_Cons matches_def case_prod_unfold)

lemma find_one_None_ids:
  "find_one coll v = None \<longleftrightarrow> (\<forall>d \<in> set coll. map_of d ''_id'' \<noteq> Some v)"
  by (simp add: find_one_None_iff matches_def)

lemma find_one_Some_ids:
  "find_one coll v = Some d \<Longrightarrow> d \<in> set coll \<and> map_of d ''_id'' = Some v"
  by (auto dest: find_one_matches simp: matches_def)

lemma find_one_and_update_sent:
  "encodable v \<Longrightarrow> document_encodable upd
   \<Longrightarrow> find_one_and_update coll v upd = Inr (update_first_match coll v upd)"
  by (simp add: find_one_and_update_def)

lemma find_one_and_update_refused:
  "\<not> document_encodable upd \<Longrightarrow> find_one_and_update coll v upd = Inl OverflowError"
  by (simp add: find_one_and_update_def)

section \<open>The primitives keep the invariants of the store\<close>

lemma unique_ids_append:
  "unique_ids coll \<Longrightarrow> map_of d ''_id'' = Some v \<Longrightarrow> find_one coll v = None
   \<Longrightarrow> unique_ids (coll @ [d])"
  by (induction coll) (auto simp: unique_ids_Cons unique_ids_def find_one_Cons matches_def split: if_splits)

lemma insert_one_unique_ids:
  assumes "unique_ids coll" and "insert_one new_id coll d = Inr (v, coll')"
  shows "unique_ids coll'"
proof (cases "map_of d ''_id''")
  case None
  with assms(2) have "coll' = coll @ [(''_id'', BObjectId new_id) # d]"
    and "find_one coll (BObjectId new_id) = None"
    by (auto simp: insert_one_def Let_def split: if_splits)
  with assms(1) show ?thesis by (simp add: unique_ids_append)
next
  case (Some w)
  with assms(2) have "coll' = coll @ [d]" and "find_one coll w = None"
    by (auto simp: insert_one_def Let_def split: if_splits)
  with assms(1) Some show ?thesis by (simp add: unique_ids_append)
qed

lemma set_delete_one: "set (snd (delete_one coll v)) \<subseteq> set coll"
  by (induction coll) (auto simp: case_prod_unfold)

lemma delete_one_unique_ids: "unique_ids coll \<Longrightarrow> unique_ids (snd (delete_one coll v))"
proof (induction coll)
  case Nil
  show ?case by (simp add: unique_ids_def)
next
  case (Cons d ds)
  then show ?case
    using set_delete_one [of ds v]
    by (auto simp: unique_ids_Cons case_prod_unfold)
qed

lemma ids_after_update:
  "''_id'' \<notin> fst ` set upd \<Longrightarrow>
   map (\<lambda>d. map_of d ''_id'') (snd (update_first_match coll v upd)) =
   map (\<lambda>d. map_of d ''_id'') coll"
  by (induction coll) (auto simp: case_prod_unfold set_fields_untouched)

lemma update_first_match_unique_ids:
  "''_id'' \<notin> fst ` set upd \<Longrightarrow> unique_ids coll
   \<Longrightarrow> unique_ids (snd (update_first_match coll v upd))"
proof -
  assume k: "''_id'' \<notin> fst ` set upd" and u: "unique_ids coll"
  have "unique_ids c \<longleftrightarrow>
          list_all (\<lambda>x. x \<noteq> None) (map (\<lambda>d. map_of d ''_id'') c)
          \<and> distinct (map (\<lambda>d. map_of d ''_id'') c)" for c
    by (simp add: unique_ids_def list_all_iff)
  with u ids_after_update [OF k, of coll v] show ?thesis by simp
qed

lemma insert_one_stored_int64:
  assumes "stored_int64 coll" and "insert_one new_id coll d = Inr (v, coll')"
  shows "stored_int64 coll'"
  using assms
  by (cases "map_of d ''_id''")
     (auto simp: insert_one_def Let_def stored_int64_def split: if_splits)

lemma delete_one_stored_int64: "stored_int64 coll \<Longrightarrow> stored_int64 (snd (delete_one coll v))"
  using set_delete_one [of coll v] by (auto simp: stored_int64_def list_all_iff)

lemma document_encodable_update:
  "document_encodable d \<Longrightarrow> encodable v \<Longrightarrow> document_encodable (AList.update k v d)"
  by (induction d) (auto simp: document_encodable_def)

lemma document_encodable_set_fields:
  "document_encodable upd \<Longrightarrow> document_encodable d \<Longrightarrow> document_encodable (set_fields upd d)"
proof (induction upd arbitrary: d)
  case Nil
  then show ?case by (simp add: set_fields_def)
next
  case (Cons p upd)
  obtain k v where p: "p = (k, v)" by (cases p)
  from Cons.prems have "encodable v" and u: "document_encodable upd"
    by (simp_all add: p document_encodable_def)
  with Cons.prems(2) have "document_encodable (AList.update k v d)"
    by (simp add: document_encodable_update)
  with Cons.IH [OF u] have "document_encodable (set_fields upd (AList.update k v d))" .
  then show ?case by (simp add: set_fields_def p)
qed

lemma update_first_match_stored_int64:
  "document_encodable upd \<Longrightarrow> stored_int64 coll
   \<Longrightarrow> stored_int64 (snd (update_first_match coll v upd))"
  by (induction coll)
     (auto simp: stored_int64_def case_prod_unfold document_encodable_set_fields)

section \<open>Facts about documents read as records\<close>


lemma ints_of_append:
  "ints_of xs = Some ns \<Longrightarrow> ints_of (xs @ [BInt n]) = Some (ns @ [n])"
  by (induction xs arbitrary: ns) (auto split: option.splits)


lemma as_ShareholderModel_fields:
  assumes "as_ShareholderModel d = Some m"
  shows "\<exists>ts. map_of d ''transactions'' = Some (BArray ts) \<and> ints_of ts = Some (transactions m)
            \<and> map_of d ''shares'' = Some (BInt (shares m))
            \<and> map_of d ''name'' = Some (BString (name m))
            \<and> id_str (map_of d ''_id'') = Some (id_opt m)"
  using assms
  by (auto simp: as_ShareholderModel_def split: option.splits bson.splits)

lemma validate_ints_of:
  "ints_of xs = Some ns \<Longrightarrow> those (map (validate_int l) xs) = Some ns"
proof (induction xs arbitrary: ns)
  case Nil
  then show ?case by simp
next
  case (Cons x xs)
  then show ?case by (cases x) (auto split: option.splits)
qed

lemma encodable_ints_of:
  "ints_of xs = Some ns \<Longrightarrow> list_all encodable xs = list_all int64 ns"
proof (induction xs arbitrary: ns)
  case Nil
  then show ?case by simp
next
  case (Cons x xs)
  then show ?case by (cases x) (auto split: option.splits)
qed

lemma validate_stored_record:
  assumes "as_ShareholderModel d = Some m" and "map_of d ''_id'' \<noteq> None"
  shows "validate_ShareholderModel l d = Some m"
proof -
  from as_ShareholderModel_fields [OF assms(1)] obtain ts where
    ts: "map_of d ''transactions'' = Some (BArray ts)" "ints_of ts = Some (transactions m)"
    and sh: "map_of d ''shares'' = Some (BInt (shares m))"
    and nm: "map_of d ''name'' = Some (BString (name m))"
    and idm: "id_str (map_of d ''_id'') = Some (id_opt m)"
    by blast
  from assms(2) obtain v where v: "map_of d ''_id'' = Some v" by blast
  have "validate_id l d = id_opt m"
    using idm by (cases v) (simp_all add: validate_id_def v)
  then show ?thesis
    by (simp add: validate_ShareholderModel_def nm sh ts validate_ints_of [OF ts(2)])
qed

lemma validate_needs_fields:
  "map_of d ''name'' = None \<or> map_of d ''shares'' = None \<or> map_of d ''transactions'' = None
   \<Longrightarrow> validate_ShareholderModel l d = None"
  by (auto simp: validate_ShareholderModel_def split: option.splits)

lemma those_Some_iff:
  "those xs = Some ys \<longleftrightarrow> list_all2 (\<lambda>x y. x = Some y) xs ys"
proof (induction xs arbitrary: ys)
  case Nil
  show ?case by auto
next
  case (Cons x xs)
  show ?case
    by (cases x; cases ys) (auto simp: Cons.IH)
qed

lemma those_None_iff: "those xs = None \<longleftrightarrow> None \<in> set xs"
  by (induction xs) (auto split: option.splits)

lemma response_list_valid:
  "list_all2 (\<lambda>d m. validate_ShareholderModel l d = Some m) ds ms
   \<Longrightarrow> response_list_ShareholderModel l code ds = (code, JSON_shareholders ms)"
proof -
  assume "list_all2 (\<lambda>d m. validate_ShareholderModel l d = Some m) ds ms"
  then have "list_all2 (\<lambda>x y. x = Some y) (map (validate_ShareholderModel l) ds) ms"
    by (simp add: list_all2_map1)
  then have "those (map (validate_ShareholderModel l) ds) = Some ms"
    by (simp add: those_Some_iff)
  then show ?thesis by (simp add: response_list_ShareholderModel_def)
qed

lemma response_list_invalid:
  "d \<in> set ds \<Longrightarrow> validate_ShareholderModel l d = None
   \<Longrightarrow> response_list_ShareholderModel l code ds =
         (500, Internal_Server_Error ResponseValidationError)"
proof -
  assume "d \<in> set ds" and "validate_ShareholderModel l d = None"
  then have "None \<in> set (map (validate_ShareholderModel l) ds)" by force
  then have "those (map (validate_ShareholderModel l) ds) = None"
    by (simp only: those_None_iff)
  then show ?thesis by (simp add: response_list_ShareholderModel_def)
qed

lemma all_valid_list:
  "\<forall>d \<in> set ds. validate_ShareholderModel l d \<noteq> None
   \<Longrightarrow> \<exists>ms. list_all2 (\<lambda>d m. validate_ShareholderModel l d = Some m) ds ms"
proof (induction ds)
  case Nil
  show ?case by simp
next
  case (Cons d ds)
  then obtain ms where "list_all2 (\<lambda>d m. validate_ShareholderModel l d = Some m) ds ms"
    by auto
  moreover from Cons.prems obtain m where "validate_ShareholderModel l d = Some m" by auto
  ultimately have "list_all2 (\<lambda>d m. validate_ShareholderModel l d = Some m) (d # ds) (m # ms)"
    by simp
  then show ?case by blast
qed

section \<open>Facts about the handlers\<close>

lemma append_transaction_between_unfold:
  assumes "ObjectId i = Inr oid" and "find_one coll oid = Some d"
    and "py_add (py_get d ''transactions'' (BArray [])) (BArray [BInt v]) = Inr ut"
    and "py_add (py_get d ''shares'' (BInt 0)) (BInt v) = Inr us"
  shows "append_transaction_between between coll i v =
           (if encodable ut \<and> encodable us
            then (case update_first_match (between coll) oid
                         [(''transactions'', ut), (''shares'', us)] of
                    (Some update_result, coll') \<Rightarrow> (Inr update_result, coll')
                  | (None, coll') \<Rightarrow> (Inl (not_found i), coll'))
            else (Inl OverflowError, between coll))"
  using assms ObjectId_encodable [OF assms(1)]
  by (simp add: append_transaction_between_def find_one_and_update_def document_encodable_def)

lemma append_transaction_unfold:
  assumes "ObjectId i = Inr oid" and "find_one coll oid = Some d"
    and "py_add (py_get d ''transactions'' (BArray [])) (BArray [BInt v]) = Inr ut"
    and "py_add (py_get d ''shares'' (BInt 0)) (BInt v) = Inr us"
    and "encodable ut" and "encodable us"
  shows "fst (append_transaction coll i v) =
           Inr (set_fields [(''transactions'', ut), (''shares'', us)] d)
       \<and> find_one (snd (append_transaction coll i v)) oid =
           Some (set_fields [(''transactions'', ut), (''shares'', us)] d)"
proof -
  let ?upd = "[(''transactions'', ut), (''shares'', us)]"
  have no_id: "''_id'' \<notin> fst ` set ?upd" by simp
  have r: "fst (update_first_match coll oid ?upd) = Some (set_fields ?upd d)"
    using assms(2) by (rule update_first_match_present)
  have f: "find_one (snd (update_first_match coll oid ?upd)) oid = Some (set_fields ?upd d)"
    using assms(2) no_id by (rule find_one_after_update)
  obtain res coll' where fou: "update_first_match coll oid ?upd = (res, coll')"
    by (cases "update_first_match coll oid ?upd")
  from r f fou have "res = Some (set_fields ?upd d)"
    and "find_one coll' oid = Some (set_fields ?upd d)" by simp_all
  then show ?thesis
    using fou assms(5,6)
    by (simp add: append_transaction_def append_transaction_between_unfold [OF assms(1-4)])
qed

lemma append_transaction_refused:
  assumes "ObjectId i = Inr oid" and "find_one coll oid = Some d"
    and "py_add (py_get d ''transactions'' (BArray [])) (BArray [BInt v]) = Inr ut"
    and "py_add (py_get d ''shares'' (BInt 0)) (BInt v) = Inr us"
    and "\<not> (encodable ut \<and> encodable us)"
  shows "append_transaction coll i v = (Inl OverflowError, coll)"
  using assms(5)
  by (auto simp: append_transaction_def append_transaction_between_unfold [OF assms(1-4)])

lemma route_append_transaction_unfold:
  "route_append_transaction l coll i v =
     (case append_transaction coll i v of
        (Inl e, coll') \<Rightarrow> (raised e, coll')
      | (Inr d, coll') \<Rightarrow> (response_ShareholderModel l 200 (Some d), coll'))"
  by (simp add: route_append_transaction_def route_append_transaction_between_def
        append_transaction_def)

lemma append_transaction_typed:
  assumes "ObjectId i = Inr oid" and "find_one coll oid = Some d"
    and "as_ShareholderModel d = Some m"
  shows "(list_all int64 (transactions m) \<and> int64 v \<and> int64 (shares m + v) \<longrightarrow>
            (\<exists>d'. append_transaction coll i v = (Inr d', snd (append_transaction coll i v))
               \<and> find_one (snd (append_transaction coll i v)) oid = Some d'
               \<and> as_ShareholderModel d' =
                   Some (m\<lparr>shares := shares m + v, transactions := transactions m @ [v]\<rparr>)
               \<and> route_append_transaction l coll i v =
                   ((200, JSON_shareholder
                            (m\<lparr>shares := shares m + v, transactions := transactions m @ [v]\<rparr>)),
                    snd (append_transaction coll i v))))
       \<and> (\<not> (list_all int64 (transactions m) \<and> int64 v \<and> int64 (shares m + v)) \<longrightarrow>
            append_transaction coll i v = (Inl OverflowError, coll)
            \<and> route_append_transaction l coll i v =
                ((500, Internal_Server_Error OverflowError), coll))"
proof -
  from as_ShareholderModel_fields [OF assms(3)] obtain ts where
    ts: "map_of d ''transactions'' = Some (BArray ts)" "ints_of ts = Some (transactions m)"
    and sh: "map_of d ''shares'' = Some (BInt (shares m))"
    and nm: "map_of d ''name'' = Some (BString (name m))"
    and idm: "id_str (map_of d ''_id'') = Some (id_opt m)"
    by blast
  let ?ut = "BArray (ts @ [BInt v])" and ?us = "BInt (shares m + v)"
  let ?upd = "[(''transactions'', ?ut), (''shares'', ?us)]"
  let ?m' = "m\<lparr>shares := shares m + v, transactions := transactions m @ [v]\<rparr>"
  have a1: "py_add (py_get d ''transactions'' (BArray [])) (BArray [BInt v]) = Inr ?ut"
    by (simp add: py_get_def ts)
  have a2: "py_add (py_get d ''shares'' (BInt 0)) (BInt v) = Inr ?us"
    by (simp add: py_get_def sh)
  have enc: "encodable ?ut \<and> encodable ?us
               \<longleftrightarrow> list_all int64 (transactions m) \<and> int64 v \<and> int64 (shares m + v)"
    by (auto simp: encodable_ints_of [OF ts(2)])
  have view: "as_ShareholderModel (set_fields ?upd d) = Some ?m'"
    by (simp add: as_ShareholderModel_def map_of_set_fields nm idm ints_of_append [OF ts(2)])
  have has_id: "map_of (set_fields ?upd d) ''_id'' \<noteq> None"
    using find_one_Some_ids [OF assms(2)] by (simp add: set_fields_untouched)
  have valid: "validate_ShareholderModel l (set_fields ?upd d) = Some ?m'"
    using view has_id by (rule validate_stored_record)
  show ?thesis
  proof (cases "list_all int64 (transactions m) \<and> int64 v \<and> int64 (shares m + v)")
    case True
    then have e: "encodable ?ut" "encodable ?us" using enc by simp_all
    from append_transaction_unfold [OF assms(1,2) a1 a2 e]
    have r: "fst (append_transaction coll i v) = Inr (set_fields ?upd d)"
      and f: "find_one (snd (append_transaction coll i v)) oid = Some (set_fields ?upd d)"
      by simp_all
    from r have p: "append_transaction coll i v =
        (Inr (set_fields ?upd d), snd (append_transaction coll i v))"
      by (simp add: prod_eq_iff)
    have "route_append_transaction l coll i v =
            ((200, JSON_shareholder ?m'), snd (append_transaction coll i v))"
      by (subst route_append_transaction_unfold, subst p)
         (simp add: response_ShareholderModel_def valid)
    with True p f view show ?thesis by blast
  next
    case False
    then have "\<not> (encodable ?ut \<and> encodable ?us)" using enc by simp
    from append_transaction_refused [OF assms(1,2) a1 a2 this]
    have "append_transaction coll i v = (Inl OverflowError, coll)" .
    with False show ?thesis by (simp add: route_append_transaction_unfold)
  qed
qed

lemma py_add_raises: "py_add a b = Inl e \<Longrightarrow> e = TypeError"
  by (induction a b rule: py_add.induct) auto

lemma non_null_fields_keys:
  "fst ` set (non_null_fields u) \<subseteq> {''name'', ''shares'', ''transactions''}"
  by (auto simp: non_null_fields_def model_dump_update_def)

lemma non_null_fields_nonempty:
  "upd_name u \<noteq> None \<or> upd_shares u \<noteq> None \<or> upd_transactions u \<noteq> None
   \<Longrightarrow> length (non_null_fields u) \<ge> 1"
  by (cases "upd_name u"; cases "upd_shares u"; cases "upd_transactions u")
     (simp_all add: non_null_fields_def model_dump_update_def)

lemma set_non_null_fields_name:
  "map_of (set_fields (non_null_fields u) d) ''name'' =
     (case upd_name u of None \<Rightarrow> map_of d ''name'' | Some n \<Rightarrow> Some (BString n))"
  by (cases "upd_name u"; cases "upd_shares u"; cases "upd_transactions u")
     (simp_all add: non_null_fields_def model_dump_update_def map_of_set_fields map_add_def)

lemma set_non_null_fields_shares:
  "map_of (set_fields (non_null_fields u) d) ''shares'' =
     (case upd_shares u of None \<Rightarrow> map_of d ''shares'' | Some s \<Rightarrow> Some (BInt s))"
  by (cases "upd_name u"; cases "upd_shares u"; cases "upd_transactions u")
     (simp_all add: non_null_fields_def model_dump_update_def map_of_set_fields map_add_def)

lemma set_non_null_fields_transactions:
  "map_of (set_fields (non_null_fields u) d) ''transactions'' =
     (case upd_transactions u of
        None \<Rightarrow> map_of d ''transactions''
      | Some ts \<Rightarrow> Some (BArray (map BInt ts)))"
  by (cases "upd_name u"; cases "upd_shares u"; cases "upd_transactions u")
     (simp_all add: non_null_fields_def model_dump_update_def map_of_set_fields map_add_def)

lemma list_all_encodable_BInt: "list_all encodable (map BInt ns) = list_all int64 ns"
  by (induction ns) simp_all

lemma non_null_fields_encodable:
  "document_encodable (non_null_fields u) \<longleftrightarrow>
     (case upd_shares u of None \<Rightarrow> True | Some s \<Rightarrow> int64 s)
     \<and> (case upd_transactions u of None \<Rightarrow> True | Some ts \<Rightarrow> list_all int64 ts)"
  by (cases "upd_name u"; cases "upd_shares u"; cases "upd_transactions u")
     (simp_all add: non_null_fields_def model_dump_update_def document_encodable_def
        list_all_encodable_BInt)


lemma update_shareholder_empty_payload:
  "update_shareholder coll i \<lparr>upd_name = None, upd_shares = None, upd_transactions = None\<rparr> =
     (case find_one coll (BString i) of
        Some existing_shareholder \<Rightarrow> (Inr existing_shareholder, coll)
      | None \<Rightarrow> (Inl (not_found i), coll))"
  by (simp add: update_shareholder_def non_null_fields_def model_dump_update_def)

lemma update_shareholder_empty_payload_object_ids:
  assumes "\<forall>d \<in> set coll. \<exists>bs. map_of d ''_id'' = Some (BObjectId bs)"
  shows "update_shareholder coll i \<lparr>upd_name = None, upd_shares = None, upd_transactions = None\<rparr> =
           (Inl (not_found i), coll)"
proof -
  have "find_one coll (BString i) = None"
    using assms by (auto simp: find_one_None_iff matches_def)
  then show ?thesis by (simp add: update_shareholder_empty_payload)
qed

section \<open>Facts about the sample data\<close>

lemma ObjectId_alice_path: "ObjectId alice_path = Inr (BObjectId alice_id)"
  by (simp add: ObjectId_def alice_path_def alice_id_def hexval_def isspace_def)

lemma ObjectId_bob_path: "ObjectId bob_path = Inr (BObjectId bob_id)"
  by (simp add: ObjectId_def bob_path_def bob_id_def hexval_def isspace_def)

lemma ObjectId_carol_path: "ObjectId carol_path = Inr (BObjectId carol_id)"
  by (simp add: ObjectId_def carol_path_def carol_id_def hexval_def isspace_def)

lemma hexlify_alice_id: "hexlify alice_id = alice_path"
  by (simp add: hexlify_def alice_id_def alice_path_def hexdigit_def)

lemma find_one_alice: "find_one [alice] (BObjectId alice_id) = Some alice"
  by (simp add: find_one_def matches_def alice_def)

lemma hexlify_bob_id: "hexlify bob_id = bob_path"
  by (simp add: hexlify_def bob_id_def bob_path_def hexdigit_def)

lemma hexlify_carol_id: "hexlify carol_id = carol_path"
  by (simp add: hexlify_def carol_id_def carol_path_def hexdigit_def)

lemma find_one_alice_bob: "find_one [alice, bob] (BObjectId alice_id) = Some alice"
  by (simp add: find_one_def matches_def alice_def)

lemma find_one_carol: "find_one [carol] (BObjectId carol_id) = Some carol"
  by (simp add: find_one_def matches_def carol_def)

lemma find_one_bob: "find_one [alice, bob] (BObjectId bob_id) = Some bob"
  by (simp add: find_one_def matches_def alice_def bob_def alice_id_def bob_id_def)

lemma unique_ids_alice: "unique_ids [alice]"
  by (simp add: unique_ids_def alice_def)

lemma as_ShareholderModel_alice:
  "as_ShareholderModel alice =
     Some \<lparr>id_opt = Some alice_path, name = ''Alice'', shares = 100, transactions = [100]\<rparr>"
  by (simp add: as_ShareholderModel_def alice_def hexlify_alice_id)

lemma as_ShareholderModel_carol:
  "as_ShareholderModel carol =
     Some \<lparr>id_opt = Some carol_path, name = ''Carol'', shares = 9223372036854775807,
           transactions = []\<rparr>"
  by (simp add: as_ShareholderModel_def carol_def hexlify_carol_id)

lemma validate_alice:
  "validate_ShareholderModel l alice =
     Some \<lparr>id_opt = Some alice_path, name = ''Alice'', shares = 100, transactions = [100]\<rparr>"
  by (rule validate_stored_record [OF as_ShareholderModel_alice]) (simp add: alice_def)

lemma validate_bob: "validate_ShareholderModel l bob = None"
  by (rule validate_needs_fields) (simp add: bob_def)


lemma update_alice:
  "update_shareholder [alice, bob] alice_path
      \<lparr>upd_name = None, upd_shares = Some 50, upd_transactions = None\<rparr> =
     (Inr [(''_id'', BObjectId alice_id), (''name'', BString ''Alice''),
           (''shares'', BInt 50), (''transactions'', BArray [BInt 100])],
      [[(''_id'', BObjectId alice_id), (''name'', BString ''Alice''),
        (''shares'', BInt 50), (''transactions'', BArray [BInt 100])], bob])"
  by (simp add: update_shareholder_def non_null_fields_def model_dump_update_def
        ObjectId_alice_path find_one_and_update_def document_encodable_def int64_def)
     (simp add: alice_def matches_def set_fields_def)




section \<open>Get all\<close>

text \<open>
  Claim C7, as amended. The get-all handler never raises and returns every stored
  document in order. The route answers 200 with their records exactly when every stored
  document validates against the shareholder shape, as every stored shareholder record
  does, and in particular on the empty collection, where the sequence is empty; one
  document that does not validate makes the route answer 500.
\<close>

theorem get_all_shareholders_validated:
  "get_all_shareholders coll = Inr coll
   \<and> ((\<forall>d \<in> set coll. validate_ShareholderModel l d \<noteq> None) \<longrightarrow>
        (\<exists>ms. route_get_all_shareholders l coll = (200, JSON_shareholders ms)
           \<and> list_all2 (\<lambda>d m. validate_ShareholderModel l d = Some m) coll ms))
   \<and> ((\<forall>d \<in> set coll. as_ShareholderModel d \<noteq> None \<and> map_of d ''_id'' \<noteq> None) \<longrightarrow>
        (\<exists>ms. route_get_all_shareholders l coll = (200, JSON_shareholders ms)
           \<and> list_all2 (\<lambda>d m. as_ShareholderModel d = Some m) coll ms))
   \<and> ((\<exists>d \<in> set coll. validate_ShareholderModel l d = None) \<longrightarrow>
        route_get_all_shareholders l coll =
          (500, Internal_Server_Error ResponseValidationError))
   \<and> route_get_all_shareholders l [] = (200, JSON_shareholders [])"
proof -
  have h: "get_all_shareholders coll = Inr coll"
    by (simp add: get_all_shareholders_def find_all_def)
  have r: "route_get_all_shareholders l c = response_list_ShareholderModel l 200 c" for c
    by (simp add: route_get_all_shareholders_def get_all_shareholders_def find_all_def)
  have valid: "\<exists>ms. route_get_all_shareholders l coll = (200, JSON_shareholders ms)
           \<and> list_all2 (\<lambda>d m. validate_ShareholderModel l d = Some m) coll ms"
    if "\<forall>d \<in> set coll. validate_ShareholderModel l d \<noteq> None"
  proof -
    from all_valid_list [OF that] obtain ms where
      ms: "list_all2 (\<lambda>d m. validate_ShareholderModel l d = Some m) coll ms" ..
    then have "route_get_all_shareholders l coll = (200, JSON_shareholders ms)"
      by (simp add: r response_list_valid)
    with ms show ?thesis by blast
  qed
  have typed: "\<exists>ms. route_get_all_shareholders l coll = (200, JSON_shareholders ms)
           \<and> list_all2 (\<lambda>d m. as_ShareholderModel d = Some m) coll ms"
    if t: "\<forall>d \<in> set coll. as_ShareholderModel d \<noteq> None \<and> map_of d ''_id'' \<noteq> None"
  proof -
    have same: "validate_ShareholderModel l d = as_ShareholderModel d" if "d \<in> set coll" for d
      using t that validate_stored_record [of d _ l] by fastforce
    then have "\<forall>d \<in> set coll. validate_ShareholderModel l d \<noteq> None" using t by simp
    from valid [OF this] obtain ms where
      ms: "route_get_all_shareholders l coll = (200, JSON_shareholders ms)"
          "list_all2 (\<lambda>d m. validate_ShareholderModel l d = Some m) coll ms"
      by blast
    from ms(2) same have "list_all2 (\<lambda>d m. as_ShareholderModel d = Some m) coll ms"
      by (auto simp: list_all2_conv_all_nth)
    with ms(1) show ?thesis by blast
  qed
  have invalid: "route_get_all_shareholders l coll =
          (500, Internal_Server_Error ResponseValidationError)"
    if "\<exists>d \<in> set coll. validate_ShareholderModel l d = None"
    using that by (auto simp: r response_list_invalid)
  have empty: "route_get_all_shareholders l [] = (200, JSON_shareholders [])"
    by (simp add: r response_list_ShareholderModel_def)
  from h valid typed invalid empty show ?thesis by blast
qed

theorem get_all_shareholders_validated_witness:
  "as_ShareholderModel alice =
     Some \<lparr>id_opt = Some alice_path, name = ''Alice'', shares = 100, transactions = [100]\<rparr>
   \<and> map_of alice ''_id'' = Some (BObjectId alice_id)
   \<and> route_get_all_shareholders refuse_all [alice] =
       (200, JSON_shareholders
          [\<lparr>id_opt = Some alice_path, name = ''Alice'', shares = 100, transactions = [100]\<rparr>])
   \<and> validate_ShareholderModel refuse_all bob = None
   \<and> route_get_all_shareholders refuse_all [alice, bob] =
       (500, Internal_Server_Error ResponseValidationError)"
proof -
  have i: "map_of alice ''_id'' = Some (BObjectId alice_id)" by (simp add: alice_def)
  have a: "\<forall>d \<in> set [alice]. as_ShareholderModel d \<noteq> None \<and> map_of d ''_id'' \<noteq> None"
    by (simp add: as_ShareholderModel_alice i)
  have b: "\<exists>d \<in> set [alice, bob]. validate_ShareholderModel refuse_all d = None"
    by (simp add: validate_bob)
  from get_all_shareholders_validated [of "[alice]" refuse_all]
       get_all_shareholders_validated [of "[alice, bob]" refuse_all]
  show ?thesis
    using a b by (auto simp: as_ShareholderModel_alice validate_bob i list_all2_Cons1)
qed

theorem get_all_shareholders_counterexample:
  "route_get_all_shareholders refuse_all [alice, bob] =
     (500, Internal_Server_Error ResponseValidationError)"
  by (simp add: route_get_all_shareholders_def get_all_shareholders_def find_all_def
        response_list_ShareholderModel_def validate_alice validate_bob)

section \<open>Get by id\<close>

text \<open>
  Claim C6, as amended. For an id that \<open>ObjectId\<close> accepts, get-by-id answers 404
  exactly when the collection holds no document with that id. When it holds one, the
  handler returns a document of the collection that carries that id, and the route
  answers 200 with its record when the document validates against the shareholder shape,
  as every stored shareholder record does, and 500 when it does not.
\<close>

theorem get_shareholder_by_id:
  assumes "ObjectId i = Inr oid"
  shows "(route_get_shareholder l coll i =
            (404, JSON_detail (''Shareholder '' @ i @ '' not found''))
          \<longleftrightarrow> (\<forall>d \<in> set coll. map_of d ''_id'' \<noteq> Some oid))
       \<and> (fst (route_get_shareholder l coll i) = 404
          \<longleftrightarrow> (\<forall>d \<in> set coll. map_of d ''_id'' \<noteq> Some oid))
       \<and> ((\<exists>d \<in> set coll. map_of d ''_id'' = Some oid) \<longrightarrow>
            (\<exists>d. get_shareholder coll i = Inr d \<and> d \<in> set coll \<and> map_of d ''_id'' = Some oid
               \<and> find_one coll oid = Some d
               \<and> route_get_shareholder l coll i =
                   (case validate_ShareholderModel l d of
                      Some m \<Rightarrow> (200, JSON_shareholder m)
                    | None \<Rightarrow> (500, Internal_Server_Error ResponseValidationError))
               \<and> (\<forall>m. as_ShareholderModel d = Some m \<longrightarrow>
                      route_get_shareholder l coll i = (200, JSON_shareholder m))))"
proof (cases "find_one coll oid")
  case None
  then have no: "\<forall>d \<in> set coll. map_of d ''_id'' \<noteq> Some oid"
    by (simp add: find_one_None_ids)
  have "route_get_shareholder l coll i =
          (404, JSON_detail (''Shareholder '' @ i @ '' not found''))"
    using assms None by (simp add: route_get_shareholder_def get_shareholder_def not_found_def)
  with no show ?thesis by simp
next
  case (Some d)
  from find_one_Some_ids [OF Some] have mem: "d \<in> set coll" and idd: "map_of d ''_id'' = Some oid"
    by simp_all
  have ne: "d \<noteq> []" using Some by (rule found_nonempty)
  have h: "get_shareholder coll i = Inr d"
    using assms Some ne by (simp add: get_shareholder_def)
  have r: "route_get_shareholder l coll i =
             (case validate_ShareholderModel l d of
                Some m \<Rightarrow> (200, JSON_shareholder m)
              | None \<Rightarrow> (500, Internal_Server_Error ResponseValidationError))"
    by (simp add: route_get_shareholder_def h response_ShareholderModel_def
          split: option.splits)
  have typed: "\<forall>m. as_ShareholderModel d = Some m \<longrightarrow>
                 route_get_shareholder l coll i = (200, JSON_shareholder m)"
    using idd by (auto simp: r dest!: validate_stored_record [where l = l])
  have not404: "fst (route_get_shareholder l coll i) \<noteq> 404"
    by (simp add: r split: option.splits)
  then have not404': "route_get_shareholder l coll i \<noteq>
      (404, JSON_detail (''Shareholder '' @ i @ '' not found''))"
    by auto
  have ex: "\<not> (\<forall>d \<in> set coll. map_of d ''_id'' \<noteq> Some oid)"
    using mem idd by blast
  from not404 not404' ex h mem idd Some r typed show ?thesis by blast
qed

theorem get_shareholder_by_id_witness:
  "ObjectId alice_path = Inr (BObjectId alice_id)
   \<and> route_get_shareholder refuse_all [] alice_path =
       (404, JSON_detail (''Shareholder '' @ alice_path @ '' not found''))
   \<and> map_of alice ''_id'' = Some (BObjectId alice_id)
   \<and> get_shareholder [alice, bob] alice_path = Inr alice
   \<and> as_ShareholderModel alice =
       Some \<lparr>id_opt = Some alice_path, name = ''Alice'', shares = 100, transactions = [100]\<rparr>
   \<and> route_get_shareholder refuse_all [alice, bob] alice_path =
       (200, JSON_shareholder
          \<lparr>id_opt = Some alice_path, name = ''Alice'', shares = 100, transactions = [100]\<rparr>)"
proof -
  have i: "map_of alice ''_id'' = Some (BObjectId alice_id)" by (simp add: alice_def)
  then have e: "\<exists>d \<in> set [alice, bob]. map_of d ''_id'' = Some (BObjectId alice_id)"
    by simp
  from get_shareholder_by_id [OF ObjectId_alice_path, of refuse_all "[]"]
       get_shareholder_by_id [OF ObjectId_alice_path, of refuse_all "[alice, bob]"]
  show ?thesis
    using e by (auto simp: ObjectId_alice_path find_one_alice_bob as_ShareholderModel_alice i)
qed

theorem get_shareholder_by_id_counterexample:
  "ObjectId bob_path = Inr (BObjectId bob_id)
   \<and> find_one [alice, bob] (BObjectId bob_id) = Some bob
   \<and> get_shareholder [alice, bob] bob_path = Inr bob
   \<and> route_get_shareholder refuse_all [alice, bob] bob_path =
       (500, Internal_Server_Error ResponseValidationError)"
proof -
  have "bob \<noteq> []" by (simp add: bob_def)
  then show ?thesis
    by (simp add: ObjectId_bob_path find_one_bob route_get_shareholder_def get_shareholder_def
          response_ShareholderModel_def validate_bob)
qed

section \<open>Create, then get\<close>




section \<open>Delete\<close>

text \<open>
  Claim C5. With the record present and nothing in between, the first delete of an id
  returns the 204 response with no body and leaves no document under that id; the second
  delete of the same id raises the 404 and leaves the collection as it is.
\<close>

theorem delete_twice:
  assumes "unique_ids coll" and "ObjectId i = Inr oid" and "find_one coll oid = Some d"
  shows "fst (delete_shareholder coll i) = Inr \<lparr>resp_status_code = 204, resp_body = []\<rparr>
       \<and> find_one (snd (delete_shareholder coll i)) oid = None
       \<and> delete_shareholder (snd (delete_shareholder coll i)) i =
           (Inl (HTTPException 404 (''Shareholder '' @ i @ '' not found'')),
            snd (delete_shareholder coll i))
       \<and> route_delete_shareholder coll i = ((204, Raw []), snd (delete_shareholder coll i))
       \<and> route_delete_shareholder (snd (delete_shareholder coll i)) i =
           ((404, JSON_detail (''Shareholder '' @ i @ '' not found'')),
            snd (delete_shareholder coll i))"
proof -
  let ?coll1 = "snd (delete_one coll oid)"
  have cnt: "fst (delete_one coll oid) = 1" using assms(3) by (rule delete_one_present)
  have first: "delete_shareholder coll i = (Inr \<lparr>resp_status_code = 204, resp_body = []\<rparr>, ?coll1)"
    using assms(2) cnt by (simp add: delete_shareholder_def case_prod_unfold)
  have gone: "find_one ?coll1 oid = None" using assms(1) by (rule find_one_after_delete)
  have second: "delete_shareholder ?coll1 i = (Inl (not_found i), ?coll1)"
    using assms(2) by (simp add: delete_shareholder_def delete_one_absent [OF gone])
  show ?thesis
    by (simp add: route_delete_shareholder_def first gone second not_found_def)
qed

theorem delete_twice_witness:
  "unique_ids [alice] \<and> ObjectId alice_path = Inr (BObjectId alice_id)
   \<and> find_one [alice] (BObjectId alice_id) = Some alice
   \<and> delete_shareholder [alice] alice_path = (Inr \<lparr>resp_status_code = 204, resp_body = []\<rparr>, [])
   \<and> delete_shareholder [] alice_path =
       (Inl (HTTPException 404 (''Shareholder '' @ alice_path @ '' not found'')), [])
   \<and> route_delete_shareholder [alice] alice_path = ((204, Raw []), [])
   \<and> route_delete_shareholder [] alice_path =
       ((404, JSON_detail (''Shareholder '' @ alice_path @ '' not found'')), [])"
proof -
  have step: "delete_shareholder [alice] alice_path = (Inr \<lparr>resp_status_code = 204, resp_body = []\<rparr>, [])"
    by (simp add: delete_shareholder_def ObjectId_alice_path matches_def alice_def)
  from delete_twice [OF unique_ids_alice ObjectId_alice_path find_one_alice]
  show ?thesis
    by (simp add: unique_ids_alice ObjectId_alice_path find_one_alice step)
qed

section \<open>Partial update\<close>

text \<open>
  Claim C4. A partial update with at least one non-null field writes the supplied fields
  only: in the document it returns and stores, each of \<open>name\<close>, \<open>shares\<close> and
  \<open>transactions\<close> holds the supplied value when the payload has one and its previous
  value (or absence) when the payload has none; every other field, \<open>_id\<close> included,
  is as before, and so is every other document. When a supplied integer does not fit the
  store's eight bytes the driver refuses the update and nothing at all is written.
\<close>

theorem update_shareholder_writes_only_supplied:
  assumes "ObjectId i = Inr oid" and "find_one coll oid = Some d"
    and "upd_name u \<noteq> None \<or> upd_shares u \<noteq> None \<or> upd_transactions u \<noteq> None"
  shows "((case upd_shares u of None \<Rightarrow> True | Some s \<Rightarrow> int64 s)
          \<and> (case upd_transactions u of None \<Rightarrow> True | Some ts \<Rightarrow> list_all int64 ts) \<longrightarrow>
          (\<exists>d'. fst (update_shareholder coll i u) = Inr d'
            \<and> find_one (snd (update_shareholder coll i u)) oid = Some d'
            \<and> map_of d' ''name'' =
                (case upd_name u of None \<Rightarrow> map_of d ''name'' | Some n \<Rightarrow> Some (BString n))
            \<and> map_of d' ''shares'' =
                (case upd_shares u of None \<Rightarrow> map_of d ''shares'' | Some s \<Rightarrow> Some (BInt s))
            \<and> map_of d' ''transactions'' =
                (case upd_transactions u of
                   None \<Rightarrow> map_of d ''transactions''
                 | Some ts \<Rightarrow> Some (BArray (map BInt ts)))
            \<and> (\<forall>k. k \<notin> {''name'', ''shares'', ''transactions''} \<longrightarrow> map_of d' k = map_of d k)
            \<and> (\<forall>w. w \<noteq> oid \<longrightarrow>
                  find_one (snd (update_shareholder coll i u)) w = find_one coll w)))
       \<and> (\<not> ((case upd_shares u of None \<Rightarrow> True | Some s \<Rightarrow> int64 s)
              \<and> (case upd_transactions u of None \<Rightarrow> True | Some ts \<Rightarrow> list_all int64 ts)) \<longrightarrow>
            update_shareholder coll i u = (Inl OverflowError, coll))"
proof -
  let ?upd = "non_null_fields u"
  let ?d' = "set_fields ?upd d"
  let ?enc = "(case upd_shares u of None \<Rightarrow> True | Some s \<Rightarrow> int64 s)
          \<and> (case upd_transactions u of None \<Rightarrow> True | Some ts \<Rightarrow> list_all int64 ts)"
  have len: "length ?upd \<ge> 1" using assms(3) by (rule non_null_fields_nonempty)
  have oid: "encodable oid" using assms(1) by (rule ObjectId_encodable)
  have sent: "update_shareholder coll i u = (Inr ?d', snd (update_first_match coll oid ?upd))"
    if "?enc"
  proof -
    from that have "document_encodable ?upd" using non_null_fields_encodable [of u] by blast
    then have f: "find_one_and_update coll oid ?upd = Inr (update_first_match coll oid ?upd)"
      using oid by (simp add: find_one_and_update_sent)
    have r: "fst (update_first_match coll oid ?upd) = Some ?d'"
      using assms(2) by (rule update_first_match_present)
    show ?thesis
      using assms(1) len r by (simp add: update_shareholder_def f case_prod_unfold Let_def)
  qed
  have refused: "update_shareholder coll i u = (Inl OverflowError, coll)" if "\<not> ?enc"
  proof -
    from that have "\<not> document_encodable ?upd" using non_null_fields_encodable [of u] by blast
    then have "find_one_and_update coll oid ?upd = Inl OverflowError"
      by (rule find_one_and_update_refused)
    then show ?thesis
      using assms(1) len by (simp add: update_shareholder_def Let_def)
  qed
  have no_id: "''_id'' \<notin> fst ` set ?upd"
    using non_null_fields_keys [of u] by auto
  have same: "find_one (snd (update_first_match coll oid ?upd)) oid = Some ?d'"
    using assms(2) no_id by (rule find_one_after_update)
  have others: "\<forall>w. w \<noteq> oid \<longrightarrow> find_one (snd (update_first_match coll oid ?upd)) w = find_one coll w"
    using no_id by (simp add: find_one_other_after_update)
  have frame: "\<forall>k. k \<notin> {''name'', ''shares'', ''transactions''} \<longrightarrow> map_of ?d' k = map_of d k"
  proof (intro allI impI)
    fix k :: string
    assume "k \<notin> {''name'', ''shares'', ''transactions''}"
    with non_null_fields_keys [of u] have "k \<notin> fst ` set ?upd" by blast
    then show "map_of ?d' k = map_of d k" by (rule set_fields_untouched)
  qed
  show ?thesis
  proof (intro conjI impI)
    assume e: "?enc"
    show "\<exists>d'. fst (update_shareholder coll i u) = Inr d'
            \<and> find_one (snd (update_shareholder coll i u)) oid = Some d'
            \<and> map_of d' ''name'' =
                (case upd_name u of None \<Rightarrow> map_of d ''name'' | Some n \<Rightarrow> Some (BString n))
            \<and> map_of d' ''shares'' =
                (case upd_shares u of None \<Rightarrow> map_of d ''shares'' | Some s \<Rightarrow> Some (BInt s))
            \<and> map_of d' ''transactions'' =
                (case upd_transactions u of
                   None \<Rightarrow> map_of d ''transactions''
                 | Some ts \<Rightarrow> Some (BArray (map BInt ts)))
            \<and> (\<forall>k. k \<notin> {''name'', ''shares'', ''transactions''} \<longrightarrow> map_of d' k = map_of d k)
            \<and> (\<forall>w. w \<noteq> oid \<longrightarrow>
                  find_one (snd (update_shareholder coll i u)) w = find_one coll w)"
      apply (rule exI [of _ ?d'])
      apply (simp only: sent [OF e] fst_conv snd_conv same set_non_null_fields_name
            set_non_null_fields_shares set_non_null_fields_transactions simp_thms)
      apply (rule conjI [OF frame others])
      done
  next
    assume "\<not> ?enc"
    then show "update_shareholder coll i u = (Inl OverflowError, coll)" by (rule refused)
  qed
qed

theorem update_shareholder_writes_only_supplied_witness:
  "ObjectId alice_path = Inr (BObjectId alice_id)
   \<and> find_one [alice, bob] (BObjectId alice_id) = Some alice
   \<and> int64 50
   \<and> (\<exists>d'. update_shareholder [alice, bob] alice_path
                  \<lparr>upd_name = None, upd_shares = Some 50, upd_transactions = None\<rparr> =
                (Inr d', [d', bob])
          \<and> map_of d' ''name'' = Some (BString ''Alice'')
          \<and> map_of d' ''shares'' = Some (BInt 50)
          \<and> map_of d' ''transactions'' = Some (BArray [BInt 100])
          \<and> map_of d' ''_id'' = Some (BObjectId alice_id))
   \<and> find_one (snd (update_shareholder [alice, bob] alice_path
                  \<lparr>upd_name = None, upd_shares = Some 50, upd_transactions = None\<rparr>))
        (BObjectId bob_id) = Some bob
   \<and> \<not> int64 9223372036854775808
   \<and> update_shareholder [alice, bob] alice_path
        \<lparr>upd_name = None, upd_shares = Some 9223372036854775808, upd_transactions = None\<rparr> =
       (Inl OverflowError, [alice, bob])"
proof -
  have some: "upd_name \<lparr>upd_name = None, upd_shares = Some s, upd_transactions = None\<rparr> \<noteq> None
      \<or> upd_shares \<lparr>upd_name = None, upd_shares = Some s, upd_transactions = None\<rparr> \<noteq> None
      \<or> upd_transactions \<lparr>upd_name = None, upd_shares = Some s, upd_transactions = None\<rparr> \<noteq> None"
    for s :: int
    by simp
  have other: "BObjectId bob_id \<noteq> BObjectId alice_id"
    by (simp add: bob_id_def alice_id_def)
  have small: "int64 50" and big: "\<not> int64 9223372036854775808"
    by (simp_all add: int64_def)
  from update_shareholder_writes_only_supplied [OF ObjectId_alice_path find_one_alice_bob some [of 50]]
       update_shareholder_writes_only_supplied
         [OF ObjectId_alice_path find_one_alice_bob some [of 9223372036854775808]]
  show ?thesis
    using other small big
    by (simp add: ObjectId_alice_path find_one_alice_bob find_one_bob update_alice)
qed

text \<open>
  Claim C1. The claim asks that a partial update with no non-null field returns the
  stored record with status 200. The handler looks the record up under the path string,
  not under \<open>ObjectId(id)\<close>: for Alice's record, which get-by-id returns with status
  200, the empty update raises the 404. The collection is left as it is.
\<close>

theorem update_shareholder_empty_payload_not_found:
  "get_shareholder [alice] alice_path = Inr alice
   \<and> route_get_shareholder refuse_all [alice] alice_path =
       (200, JSON_shareholder
               \<lparr>id_opt = Some alice_path, name = ''Alice'', shares = 100, transactions = [100]\<rparr>)
   \<and> update_shareholder [alice] alice_path
       \<lparr>upd_name = None, upd_shares = None, upd_transactions = None\<rparr> =
       (Inl (HTTPException 404 (''Shareholder '' @ alice_path @ '' not found'')), [alice])
   \<and> route_update_shareholder refuse_all [alice] alice_path
       \<lparr>upd_name = None, upd_shares = None, upd_transactions = None\<rparr> =
       ((404, JSON_detail (''Shareholder '' @ alice_path @ '' not found'')), [alice])"
proof -
  have n: "find_one [alice] (BString alice_path) = None"
    by (simp add: find_one_def matches_def alice_def)
  have ne: "alice \<noteq> []" by (simp add: alice_def)
  have g: "get_shareholder [alice] alice_path = Inr alice"
    using ne by (simp add: get_shareholder_def ObjectId_alice_path find_one_alice)
  have r: "route_get_shareholder refuse_all [alice] alice_path =
       (200, JSON_shareholder
               \<lparr>id_opt = Some alice_path, name = ''Alice'', shares = 100, transactions = [100]\<rparr>)"
    by (simp add: route_get_shareholder_def g response_ShareholderModel_def validate_alice)
  have u: "update_shareholder [alice] alice_path
       \<lparr>upd_name = None, upd_shares = None, upd_transactions = None\<rparr> =
       (Inl (HTTPException 404 (''Shareholder '' @ alice_path @ '' not found'')), [alice])"
    by (simp add: update_shareholder_empty_payload n not_found_def)
  show ?thesis
    by (simp add: g r u route_update_shareholder_def)
qed

section \<open>Append transaction\<close>




text \<open>
  Claim C3. Append-transaction keeps the baseline: on a stored shareholder record, a call
  that succeeds returns and stores a record in which shares minus the sum of the
  transactions is what it was in the record found. The call succeeds exactly when the new
  values fit the store's signed 64-bit integers; otherwise the driver refuses the update
  and the collection is left as it is.
\<close>

theorem append_transaction_keeps_baseline:
  assumes "ObjectId i = Inr oid" and "find_one coll oid = Some d"
    and "as_ShareholderModel d = Some m"
  shows "(\<forall>d'. fst (append_transaction coll i v) = Inr d' \<longrightarrow>
            find_one (snd (append_transaction coll i v)) oid = Some d'
            \<and> (\<exists>m'. as_ShareholderModel d' = Some m' \<and> baseline m' = baseline m
                  \<and> fst (route_append_transaction l coll i v) = (200, JSON_shareholder m')))
       \<and> (list_all int64 (transactions m) \<and> int64 v \<and> int64 (shares m + v) \<longrightarrow>
            (\<exists>d'. fst (append_transaction coll i v) = Inr d'))
       \<and> (\<not> (list_all int64 (transactions m) \<and> int64 v \<and> int64 (shares m + v)) \<longrightarrow>
            append_transaction coll i v = (Inl OverflowError, coll))"
proof (cases "list_all int64 (transactions m) \<and> int64 v \<and> int64 (shares m + v)")
  case True
  let ?m' = "m\<lparr>shares := shares m + v, transactions := transactions m @ [v]\<rparr>"
  from append_transaction_typed [OF assms, of v l] True obtain d' where
    d': "append_transaction coll i v = (Inr d', snd (append_transaction coll i v))"
        "find_one (snd (append_transaction coll i v)) oid = Some d'"
        "as_ShareholderModel d' = Some ?m'"
        "route_append_transaction l coll i v =
           ((200, JSON_shareholder ?m'), snd (append_transaction coll i v))"
    by blast
  have b: "baseline ?m' = baseline m" by (simp add: baseline_def)
  from d'(1) have f: "fst (append_transaction coll i v) = Inr d'"
    by (metis fst_conv)
  from d'(4) have r: "fst (route_append_transaction l coll i v) = (200, JSON_shareholder ?m')"
    by simp
  from True f d'(2,3) b r show ?thesis by auto
next
  case False
  with append_transaction_typed [OF assms, of v l]
  have "append_transaction coll i v = (Inl OverflowError, coll)" by blast
  with False show ?thesis by simp
qed

theorem append_transaction_keeps_baseline_witness:
  "ObjectId alice_path = Inr (BObjectId alice_id)
   \<and> find_one [alice] (BObjectId alice_id) = Some alice
   \<and> as_ShareholderModel alice =
       Some \<lparr>id_opt = Some alice_path, name = ''Alice'', shares = 100, transactions = [100]\<rparr>
   \<and> baseline \<lparr>id_opt = Some alice_path, name = ''Alice'', shares = 100, transactions = [100]\<rparr> = 0
   \<and> list_all int64 [100] \<and> int64 7 \<and> int64 (100 + 7)
   \<and> (\<exists>d' m'. fst (append_transaction [alice] alice_path 7) = Inr d'
          \<and> as_ShareholderModel d' = Some m' \<and> baseline m' = 0)
   \<and> find_one [carol] (BObjectId carol_id) = Some carol
   \<and> as_ShareholderModel carol =
       Some \<lparr>id_opt = Some carol_path, name = ''Carol'', shares = 9223372036854775807,
             transactions = []\<rparr>
   \<and> \<not> int64 (9223372036854775807 + 1)
   \<and> append_transaction [carol] carol_path 1 = (Inl OverflowError, [carol])"
proof -
  have r: "int64 7 \<and> int64 (100 + 7) \<and> list_all int64 [100] \<and> \<not> int64 (9223372036854775807 + 1)"
    by (simp add: int64_def)
  from append_transaction_keeps_baseline
          [OF ObjectId_alice_path find_one_alice as_ShareholderModel_alice, of 7 refuse_all]
       append_transaction_keeps_baseline
          [OF ObjectId_carol_path find_one_carol as_ShareholderModel_carol, of 1 refuse_all]
  show ?thesis
    using r
    by (auto simp: ObjectId_alice_path find_one_alice as_ShareholderModel_alice
          find_one_carol as_ShareholderModel_carol baseline_def)
qed




text \<open>
  Claim C9. Append-transaction checks for absence twice. When the first fetch finds no
  document it raises the 404 without touching the collection; when the fetch finds one
  and the update that follows is sent and finds none (another request removed the
  document in between) it raises the 404 as well. A 404 comes from one of these two
  checks only, and with nothing in between the second check never fires once the first
  has passed.
\<close>

theorem append_transaction_absence_checks:
  assumes "ObjectId i = Inr oid"
  shows "(find_one coll oid = None \<longrightarrow>
            append_transaction_between between coll i v =
              (Inl (HTTPException 404 (''Shareholder '' @ i @ '' not found'')), coll)
            \<and> route_append_transaction_between l between coll i v =
              ((404, JSON_detail (''Shareholder '' @ i @ '' not found'')), coll))
       \<and> (\<forall>d ut us.
            find_one coll oid = Some d
            \<and> py_add (py_get d ''transactions'' (BArray [])) (BArray [BInt v]) = Inr ut
            \<and> py_add (py_get d ''shares'' (BInt 0)) (BInt v) = Inr us
            \<and> encodable ut \<and> encodable us
            \<and> find_one (between coll) oid = None \<longrightarrow>
            append_transaction_between between coll i v =
              (Inl (HTTPException 404 (''Shareholder '' @ i @ '' not found'')), between coll)
            \<and> route_append_transaction_between l between coll i v =
              ((404, JSON_detail (''Shareholder '' @ i @ '' not found'')), between coll))
       \<and> (fst (fst (route_append_transaction_between l between coll i v)) = 404 \<longrightarrow>
            find_one coll oid = None \<or> find_one (between coll) oid = None)
       \<and> (find_one coll oid \<noteq> None \<longrightarrow>
            fst (fst (route_append_transaction l coll i v)) \<noteq> 404)"
proof -
  have route: "route_append_transaction_between l b coll i v = (raised e, c)"
    if "append_transaction_between b coll i v = (Inl e, c)" for b e c
    using that by (simp add: route_append_transaction_between_def)
  have first: "append_transaction_between between coll i v = (Inl (not_found i), coll)"
    if "find_one coll oid = None"
    using assms that by (simp add: append_transaction_between_def)
  have second: "append_transaction_between between coll i v = (Inl (not_found i), between coll)"
    if "find_one coll oid = Some d"
      and "py_add (py_get d ''transactions'' (BArray [])) (BArray [BInt v]) = Inr ut"
      and "py_add (py_get d ''shares'' (BInt 0)) (BInt v) = Inr us"
      and "encodable ut" and "encodable us"
      and "find_one (between coll) oid = None" for d ut us
    using append_transaction_between_unfold [OF assms that(1,2,3), of between] that(4,5)
    by (simp add: update_first_match_absent [OF that(6)])
  have only: "find_one coll oid = None \<or> find_one (b coll) oid = None"
    if st: "fst (fst (route_append_transaction_between l b coll i v)) = 404" for b
  proof (rule ccontr)
    assume "\<not> (find_one coll oid = None \<or> find_one (b coll) oid = None)"
    then obtain d e where d: "find_one coll oid = Some d" and e: "find_one (b coll) oid = Some e"
      by auto
    show False
    proof (cases "py_add (py_get d ''transactions'' (BArray [])) (BArray [BInt v])")
      case (Inl x)
      then have "x = TypeError" by (rule py_add_raises)
      with Inl d assms st show False
        by (simp add: route_append_transaction_between_def append_transaction_between_def)
    next
      case ut: (Inr ut)
      show False
      proof (cases "py_add (py_get d ''shares'' (BInt 0)) (BInt v)")
        case (Inl x)
        then have "x = TypeError" by (rule py_add_raises)
        with Inl ut d assms st show False
          by (simp add: route_append_transaction_between_def append_transaction_between_def)
      next
        case us: (Inr us)
        have "fst (update_first_match (b coll) oid [(''transactions'', ut), (''shares'', us)])
                = Some (set_fields [(''transactions'', ut), (''shares'', us)] e)"
          using e by (rule update_first_match_present)
        with st show False
          by (simp add: route_append_transaction_between_def
                append_transaction_between_unfold [OF assms d ut us]
                response_ShareholderModel_def case_prod_unfold
                split: if_splits option.splits)
      qed
    qed
  qed
  have redundant: "find_one coll oid \<noteq> None \<Longrightarrow>
      fst (fst (route_append_transaction l coll i v)) \<noteq> 404"
    using only [of "\<lambda>c. c"] by (auto simp: route_append_transaction_def)
  have c1: "find_one coll oid = None \<longrightarrow>
            append_transaction_between between coll i v =
              (Inl (HTTPException 404 (''Shareholder '' @ i @ '' not found'')), coll)
            \<and> route_append_transaction_between l between coll i v =
              ((404, JSON_detail (''Shareholder '' @ i @ '' not found'')), coll)"
    using first route [of between "not_found i" coll] by (simp add: not_found_def)
  have c2: "\<forall>d ut us.
            find_one coll oid = Some d
            \<and> py_add (py_get d ''transactions'' (BArray [])) (BArray [BInt v]) = Inr ut
            \<and> py_add (py_get d ''shares'' (BInt 0)) (BInt v) = Inr us
            \<and> encodable ut \<and> encodable us
            \<and> find_one (between coll) oid = None \<longrightarrow>
            append_transaction_between between coll i v =
              (Inl (HTTPException 404 (''Shareholder '' @ i @ '' not found'')), between coll)
            \<and> route_append_transaction_between l between coll i v =
              ((404, JSON_detail (''Shareholder '' @ i @ '' not found'')), between coll)"
    using second route [of between "not_found i" "between coll"]
    by (auto simp: not_found_def)
  from c1 c2 only [of between] redundant show ?thesis by blast
qed

theorem append_transaction_absence_checks_witness:
  "ObjectId alice_path = Inr (BObjectId alice_id)
   \<and> find_one [] (BObjectId alice_id) = None
   \<and> route_append_transaction_between refuse_all (\<lambda>c. c) [] alice_path 5 =
       ((404, JSON_detail (''Shareholder '' @ alice_path @ '' not found'')), [])
   \<and> find_one [alice] (BObjectId alice_id) = Some alice
   \<and> py_add (py_get alice ''transactions'' (BArray [])) (BArray [BInt 5]) =
       Inr (BArray [BInt 100, BInt 5])
   \<and> py_add (py_get alice ''shares'' (BInt 0)) (BInt 5) = Inr (BInt 105)
   \<and> encodable (BArray [BInt 100, BInt 5]) \<and> encodable (BInt 105)
   \<and> append_transaction_between (\<lambda>c. []) [alice] alice_path 5 =
       (Inl (HTTPException 404 (''Shareholder '' @ alice_path @ '' not found'')), [])
   \<and> route_append_transaction_between refuse_all (\<lambda>c. []) [alice] alice_path 5 =
       ((404, JSON_detail (''Shareholder '' @ alice_path @ '' not found'')), [])
   \<and> fst (fst (route_append_transaction refuse_all [alice] alice_path 5)) \<noteq> 404"
proof -
  have a1: "py_add (py_get alice ''transactions'' (BArray [])) (BArray [BInt 5]) =
              Inr (BArray [BInt 100, BInt 5])"
    by (simp add: py_get_def alice_def)
  have a2: "py_add (py_get alice ''shares'' (BInt 0)) (BInt 5) = Inr (BInt 105)"
    by (simp add: py_get_def alice_def)
  have e: "encodable (BArray [BInt 100, BInt 5]) \<and> encodable (BInt 105)"
    by (simp add: int64_def)
  from append_transaction_absence_checks [OF ObjectId_alice_path, of "[]" "\<lambda>c. c" 5 refuse_all]
       append_transaction_absence_checks [OF ObjectId_alice_path, of "[alice]" "\<lambda>c. []" 5 refuse_all]
  show ?thesis
    using e by (simp add: ObjectId_alice_path find_one_Nil find_one_alice a1 a2)
qed

end
